theory Spec2Isabelle
  imports Complex_Main "HOL-Library.Sublist" "HOL-Library.Multiset"
begin

section \<open>Python values\<close>

text \<open>
  A Python \<open>str\<close> is a sequence of Unicode code points, so it is modelled as a list of
  natural numbers (the prompts of \<open>main.py\<close> are Chinese text, and \<open>str.strip\<close> knows
  white space beyond ASCII). \<open>str_of\<close> reads an ASCII literal.
\<close>

type_synonym pystr = "nat list"

definition str_of :: "string \<Rightarrow> pystr" where
  "str_of s = map of_char s"

text \<open>
  The values that \<open>response.json()\<close> and \<open>record.data()\<close> hand to the program: \<open>None\<close>,
  booleans, integers, strings, lists and dicts (a dict is an association list in insertion
  order; a lookup finds the first binding of a key). Floating-point numbers are left out
  of the value type: no function of \<open>main.py\<close> computes with one, and their equality is
  outside this development.
\<close>

datatype pyval =
    PyNone
  | PyBool bool
  | PyInt int
  | PyStr pystr
  | PyList "pyval list"
  | PyDict "(pystr \<times> pyval) list"

type_synonym pydict = "(pystr \<times> pyval) list"

text \<open>
  An exception is its class and its message \<open>str(e)\<close>. \<open>LibraryError\<close> names a subclass
  of \<open>Exception\<close> raised inside \<open>requests\<close>, \<open>json\<close> or \<open>neo4j\<close>. Every exception of
  the model is an instance of \<open>Exception\<close>, which is what \<open>except Exception\<close> catches;
  \<open>KeyboardInterrupt\<close> and \<open>SystemExit\<close> are not.
\<close>

datatype exc_class = AttributeError | TypeError | IndexError | KeyError | LibraryError pystr

datatype exn = Exn (exc_class: exc_class) (exc_str: pystr)

fun type_name :: "pyval \<Rightarrow> pystr" where
  "type_name PyNone = str_of ''NoneType''"
| "type_name (PyBool b) = str_of ''bool''"
| "type_name (PyInt i) = str_of ''int''"
| "type_name (PyStr s) = str_of ''str''"
| "type_name (PyList xs) = str_of ''list''"
| "type_name (PyDict kvs) = str_of ''dict''"

definition quoted :: "pystr \<Rightarrow> pystr" where
  "quoted s = 39 # s @ [39]"

definition no_attribute :: "pyval \<Rightarrow> pystr \<Rightarrow> exn" where
  "no_attribute v a =
     Exn AttributeError (quoted (type_name v) @ str_of '' object has no attribute '' @ quoted a)"

definition not_subscriptable :: "pyval \<Rightarrow> exn" where
  "not_subscriptable v =
     Exn TypeError (quoted (type_name v) @ str_of '' object is not subscriptable'')"

text \<open>\<open>v.get(key)\<close>: only a dict has the method; a missing key gives \<open>None\<close>.\<close>

fun get :: "pyval \<Rightarrow> pystr \<Rightarrow> exn + pyval" where
  "get (PyDict kvs) key = Inr (case map_of kvs key of None \<Rightarrow> PyNone | Some x \<Rightarrow> x)"
| "get v key = Inl (no_attribute v (str_of ''get''))"

text \<open>\<open>v[0]\<close>. The keys of a dict are strings here, so \<open>0\<close> is never one of them.\<close>

fun subscript0 :: "pyval \<Rightarrow> exn + pyval" where
  "subscript0 (PyList []) = Inl (Exn IndexError (str_of ''list index out of range''))"
| "subscript0 (PyList (x # xs)) = Inr x"
| "subscript0 (PyStr []) = Inl (Exn IndexError (str_of ''string index out of range''))"
| "subscript0 (PyStr (c # cs)) = Inr (PyStr [c])"
| "subscript0 (PyDict kvs) = Inl (Exn KeyError (str_of ''0''))"
| "subscript0 v = Inl (not_subscriptable v)"

text \<open>\<open>v[key]\<close> for a string key (message texts as CPython 3.11 words them).\<close>

fun subscript :: "pyval \<Rightarrow> pystr \<Rightarrow> exn + pyval" where
  "subscript (PyDict kvs) key =
     (case map_of kvs key of None \<Rightarrow> Inl (Exn KeyError (quoted key)) | Some x \<Rightarrow> Inr x)"
| "subscript (PyList xs) key =
     Inl (Exn TypeError (str_of ''list indices must be integers or slices, not str''))"
| "subscript (PyStr s) key =
     Inl (Exn TypeError (str_of ''string indices must be integers, not '' @ quoted (str_of ''str'')))"
| "subscript v key = Inl (not_subscriptable v)"

subsection \<open>\<open>str.strip\<close> and \<open>str.replace\<close>\<close>

text \<open>The code points for which \<open>str.isspace\<close> holds; \<open>strip()\<close> drops them at both ends.\<close>

definition isspace :: "nat \<Rightarrow> bool" where
  "isspace c \<longleftrightarrow>
     (9 \<le> c \<and> c \<le> 13) \<or> (28 \<le> c \<and> c \<le> 32) \<or> c = 133 \<or> c = 160 \<or> c = 5760
     \<or> (8192 \<le> c \<and> c \<le> 8202) \<or> c = 8232 \<or> c = 8233 \<or> c = 8239 \<or> c = 8287 \<or> c = 12288"

definition strip :: "pystr \<Rightarrow> pystr" where
  "strip s = rev (dropWhile isspace (rev (dropWhile isspace s)))"

text \<open>
  \<open>s.replace(old, new)\<close>: the occurrences of \<open>old\<close> are found from the left and do not
  overlap; an empty \<open>old\<close> matches before every character and at the end.
\<close>

function replace :: "pystr \<Rightarrow> pystr \<Rightarrow> pystr \<Rightarrow> pystr" where
  "replace old new [] = (if old = [] then new else [])"
| "replace old new (c # cs) =
     (if old = [] then new @ c # replace old new cs
      else if prefix old (c # cs) then new @ replace old new (drop (length old) (c # cs))
      else c # replace old new cs)"
  by pat_completeness auto
termination
  by (relation "measure (\<lambda>(old, new, s). length s)") auto

text \<open>\<open>v.strip()\<close> on a value: only a \<open>str\<close> has the method.\<close>

fun strip_method :: "pyval \<Rightarrow> exn + pystr" where
  "strip_method (PyStr s) = Inr (strip s)"
| "strip_method v = Inl (no_attribute v (str_of ''strip''))"

section \<open>The text constants of \<open>main.py\<close>\<close>

text \<open>
  The string literals of the source, as code points. The prompt of
  \<open>generate_cypher_query\<close> is the f-string whose text ends with the question; its literal
  part is \<open>generate_prompt_text\<close> (319 characters, the schema description, the rules and
  the worked example).
\<close>

definition generate_prompt_text :: pystr where
  "generate_prompt_text =
    [20320, 26159, 19968, 20010, 78, 101, 111, 52, 106, 19987, 23478, 65292, 35831, 26681, 25454, 20197, 19979, 35268,
     21017, 29983, 25104, 67, 121, 112, 104, 101, 114, 26597, 35810, 65306, 10, 32, 32, 32, 32, 30693,
     35782, 22270, 35889, 32467, 26500, 65306, 10, 32, 32, 32, 32, 45, 32, 33410, 28857, 26631, 31614, 65306,
     78, 111, 100, 101, 10, 32, 32, 32, 32, 45, 32, 20851, 38190, 23646, 24615, 65306, 110, 97,
     109, 101, 10, 32, 32, 32, 32, 45, 32, 20851, 31995, 65306, 21508, 31181, 20652, 21270, 12289, 24433,
     21709, 12289, 20419, 36827, 31561, 20851, 31995, 10, 32, 32, 32, 32, 26597, 35810, 29983, 25104, 35268, 21017,
     65306, 10, 32, 32, 32, 32, 49, 46, 32, 20174, 38382, 39064, 20013, 25552, 21462, 26680, 24515, 23454,
     20307, 20851, 38190, 35789, 10, 32, 32, 32, 32, 50, 46, 32, 26597, 25214, 19982, 20851, 38190, 35789,
     30456, 20851, 30340, 33410, 28857, 21644, 23427, 20204, 20043, 38388, 30340, 20851, 31995, 10, 32, 32, 32, 32,
     31034, 20363, 65306, 10, 32, 32, 32, 32, 38382, 39064, 65306, 34, 38134, 20652, 21270, 21058, 22914, 20309,
     24433, 21709, 21453, 24212, 27963, 24615, 34, 10, 32, 32, 32, 32, 29983, 25104, 65306, 34, 77, 65,
     84, 67, 72, 32, 40, 110, 58, 78, 111, 100, 101, 41, 45, 91, 114, 93, 45, 40,
     109, 58, 78, 111, 100, 101, 41, 32, 87, 72, 69, 82, 69, 32, 110, 46, 110, 97,
     109, 101, 32, 67, 79, 78, 84, 65, 73, 78, 83, 32, 39, 38134, 39, 32, 79, 82,
     32, 109, 46, 110, 97, 109, 101, 32, 67, 79, 78, 84, 65, 73, 78, 83, 32, 39,
     27963, 24615, 39, 32, 82, 69, 84, 85, 82, 78, 32, 110, 44, 32, 114, 44, 32, 109,
     34, 10, 32, 32, 32, 32, 35831, 20026, 20197, 19979, 38382, 39064, 29983, 25104, 67, 121, 112, 104,
     101, 114, 26597, 35810, 65306, 10, 32, 32, 32, 32, 38382, 39064, 65306]"

definition generate_system_text :: pystr where
  "generate_system_text =
    [20320, 26159, 19968, 20010, 19987, 19994, 30340, 67, 121, 112, 104, 101, 114, 26597, 35810, 29983, 25104, 21161,
     25163, 65292, 25797, 38271, 20174, 38382, 39064, 20013, 25552, 21462, 20851, 38190, 23454, 20307, 12290]"

text \<open>
  The prompt of \<open>get_answer_from_kg\<close> has three literal parts, around the serialised
  records and the question.
\<close>

definition answer_prompt_head :: pystr where
  "answer_prompt_head =
    [35831, 26681, 25454, 20197, 19979, 30693, 35782, 22270, 35889, 25968, 25454, 65292, 19987, 19994, 19988, 31616, 27905, 22320,
     22238, 31572, 29992, 25143, 38382, 39064, 65306, 10, 32, 32, 32, 32, 91, 30693, 35782, 22270, 35889, 25968,
     25454, 93, 58, 10, 32, 32, 32, 32]"

definition answer_prompt_mid :: pystr where
  "answer_prompt_mid =
    [10, 32, 32, 32, 32, 91, 29992, 25143, 38382, 39064, 93, 58, 10, 32, 32, 32, 32]"

definition answer_prompt_tail :: pystr where
  "answer_prompt_tail =
    [10, 32, 32, 32, 32, 35831, 22238, 31572, 65306]"

definition answer_system_text :: pystr where
  "answer_system_text =
    [20320, 26159, 19968, 20010, 26448, 26009, 31185, 23398, 39046, 22495, 30340, 30693, 35782, 22270, 35889, 20998, 26512, 21161,
     25163, 12290]"

text \<open>
  The query of \<open>get_full_graph\<close>:
  \<^verbatim>\<open>MATCH (n)-[r]->(m) RETURN n.name AS source, m.name AS target, type(r) AS relation LIMIT $limit\<close>
  with the line breaks and the indentation of the source.
\<close>

definition graph_query :: pystr where
  "graph_query =
    [10, 32, 32, 32, 32, 77, 65, 84, 67, 72, 32, 40, 110, 41, 45, 91, 114, 93,
     45, 62, 40, 109, 41, 10, 32, 32, 32, 32, 82, 69, 84, 85, 82, 78, 32, 10,
     32, 32, 32, 32, 32, 32, 32, 32, 110, 46, 110, 97, 109, 101, 32, 65, 83, 32,
     115, 111, 117, 114, 99, 101, 44, 10, 32, 32, 32, 32, 32, 32, 32, 32, 109, 46,
     110, 97, 109, 101, 32, 65, 83, 32, 116, 97, 114, 103, 101, 116, 44, 10, 32, 32,
     32, 32, 32, 32, 32, 32, 116, 121, 112, 101, 40, 114, 41, 32, 65, 83, 32, 114,
     101, 108, 97, 116, 105, 111, 110, 10, 32, 32, 32, 32, 76, 73, 77, 73, 84, 32,
     36, 108, 105, 109, 105, 116, 10, 32, 32, 32, 32]"

text \<open>
  The query of \<open>search_subgraph\<close>: the same, with
  \<^verbatim>\<open>WHERE toLower(n.name) CONTAINS toLower($q) OR toLower(m.name) CONTAINS toLower($q)\<close>
  and \<^verbatim>\<open>LIMIT 100\<close>.
\<close>

definition search_query :: pystr where
  "search_query =
    [10, 32, 32, 32, 32, 77, 65, 84, 67, 72, 32, 40, 110, 41, 45, 91, 114, 93,
     45, 62, 40, 109, 41, 10, 32, 32, 32, 32, 87, 72, 69, 82, 69, 32, 116, 111,
     76, 111, 119, 101, 114, 40, 110, 46, 110, 97, 109, 101, 41, 32, 67, 79, 78, 84,
     65, 73, 78, 83, 32, 116, 111, 76, 111, 119, 101, 114, 40, 36, 113, 41, 32, 79,
     82, 32, 116, 111, 76, 111, 119, 101, 114, 40, 109, 46, 110, 97, 109, 101, 41, 32,
     67, 79, 78, 84, 65, 73, 78, 83, 32, 116, 111, 76, 111, 119, 101, 114, 40, 36,
     113, 41, 10, 32, 32, 32, 32, 82, 69, 84, 85, 82, 78, 32, 10, 32, 32, 32,
     32, 32, 32, 32, 32, 110, 46, 110, 97, 109, 101, 32, 65, 83, 32, 115, 111, 117,
     114, 99, 101, 44, 10, 32, 32, 32, 32, 32, 32, 32, 32, 109, 46, 110, 97, 109,
     101, 32, 65, 83, 32, 116, 97, 114, 103, 101, 116, 44, 10, 32, 32, 32, 32, 32,
     32, 32, 32, 116, 121, 112, 101, 40, 114, 41, 32, 65, 83, 32, 114, 101, 108, 97,
     116, 105, 111, 110, 10, 32, 32, 32, 32, 76, 73, 77, 73, 84, 32, 49, 48, 48,
     10, 32, 32, 32, 32]"

section \<open>The collaborators and the state\<close>

text \<open>
  \<open>main.py\<close> talks to three things it does not define: the HTTP client (\<open>requests.post\<close>
  to the model provider), the graph store (\<open>driver.session()\<close>, \<open>session.run\<close> and
  \<open>record.data()\<close>) and \<open>json.dumps\<close>. They are the fields of an environment; each
  effectful one takes the state of the outside world \<open>'w\<close> and returns the new one, and may
  raise. \<open>'r\<close> is the type of a row \<open>record.data()\<close>. \<open>set_iter\<close> is the order in which
  Python iterates over a \<open>set\<close>, given its elements in the order of insertion.
\<close>

record message =
  role :: pystr
  msg_content :: pystr

text \<open>The dict \<open>data\<close> sent as the JSON body of a completion request.\<close>

record data =
  model :: pystr
  messages :: "message list"
  temperature :: rat

text \<open>A response of \<open>requests.post\<close>, as far as the program reads it: what \<open>.json()\<close> gives.\<close>

datatype response = Response (json: "exn + pyval")

record ('w, 'r) env =
  DEEPSEEK_API_URL :: pystr
  DEEPSEEK_API_KEY :: pystr
  requests_post :: "'w \<Rightarrow> pystr \<Rightarrow> (pystr \<times> pystr) list \<Rightarrow> data \<Rightarrow> (exn + response) \<times> 'w"
  session_run :: "'w \<Rightarrow> pystr \<Rightarrow> pydict \<Rightarrow> (exn + 'r list) \<times> 'w"
  json_dumps :: "'r list \<Rightarrow> exn + pystr"
  set_iter :: "pyval list \<Rightarrow> pyval list"

text \<open>
  Every call that leaves the process is appended to a trace, so that the order of the
  calls and their arguments can be stated.
\<close>

datatype event =
    Post pystr "(pystr \<times> pystr) list" data
  | Run pystr pydict

record 'w state =
  world :: 'w
  trace :: "event list"

definition bindE :: "exn + 'a \<Rightarrow> ('a \<Rightarrow> exn + 'b) \<Rightarrow> exn + 'b" where
  "bindE r f = (case r of Inl e \<Rightarrow> Inl e | Inr x \<Rightarrow> f x)"

section \<open>The functions of \<open>main.py\<close>\<close>

text \<open>
  \<open>run_cypher(query, params=None)\<close>: runs the query with \<open>params or {}\<close> and returns the
  rows; whatever the session raises propagates.
\<close>

definition run_cypher ::
  "('w, 'r) env \<Rightarrow> 'w state \<Rightarrow> pystr \<Rightarrow> pydict option \<Rightarrow> (exn + 'r list) \<times> 'w state" where
  "run_cypher env st query params =
     (let p = (case params of None \<Rightarrow> [] | Some d \<Rightarrow> if d = [] then [] else d);
          (result, w) = session_run env (world st) query p
      in (result, \<lparr>world = w, trace = trace st @ [Run query p]\<rparr>))"

definition headers :: "('w, 'r) env \<Rightarrow> (pystr \<times> pystr) list" where
  "headers env =
     [(str_of ''Authorization'', str_of ''Bearer '' @ DEEPSEEK_API_KEY env),
      (str_of ''Content-Type'', str_of ''application/json'')]"

text \<open>\<open>response.json().get("choices")[0]["message"]["content"]\<close>, left to right.\<close>

definition first_content :: "response \<Rightarrow> exn + pyval" where
  "first_content response =
     bindE (json response) (\<lambda>body.
     bindE (get body (str_of ''choices'')) (\<lambda>choices.
     bindE (subscript0 choices) (\<lambda>choice.
     bindE (subscript choice (str_of ''message'')) (\<lambda>msg.
     subscript msg (str_of ''content'')))))"

definition fence :: pystr where
  "fence = [96, 96, 96]"

definition generate_data :: "pystr \<Rightarrow> data" where
  "generate_data question =
     \<lparr>model = str_of ''deepseek-chat'',
      messages =
        [\<lparr>role = str_of ''system'', msg_content = generate_system_text\<rparr>,
         \<lparr>role = str_of ''user'', msg_content = generate_prompt_text @ question\<rparr>],
      temperature = 1 / 2\<rparr>"

definition generate_cypher_query ::
  "('w, 'r) env \<Rightarrow> 'w state \<Rightarrow> pystr \<Rightarrow> (exn + pystr) \<times> 'w state" where
  "generate_cypher_query env st question =
     (let (posted, w) =
            requests_post env (world st) (DEEPSEEK_API_URL env) (headers env)
              (generate_data question);
          st' = \<lparr>world = w,
                 trace = trace st @
                   [Post (DEEPSEEK_API_URL env) (headers env) (generate_data question)]\<rparr>
      in (bindE posted (\<lambda>response.
          bindE (first_content response) (\<lambda>cypher_query.
          bindE (strip_method cypher_query) (\<lambda>stripped.
          Inr (replace fence [] stripped)))), st'))"

definition answer_data :: "pystr \<Rightarrow> pystr \<Rightarrow> data" where
  "answer_data dumped question =
     \<lparr>model = str_of ''deepseek-chat'',
      messages =
        [\<lparr>role = str_of ''system'', msg_content = answer_system_text\<rparr>,
         \<lparr>role = str_of ''user'',
          msg_content =
            answer_prompt_head @ dumped @ answer_prompt_mid @ question @ answer_prompt_tail\<rparr>],
      temperature = 1 / 2\<rparr>"

text \<open>
  \<open>get_answer_from_kg\<close> builds its prompt with \<open>json.dumps(kg_records, ...)\<close> before it
  posts: a record that cannot be serialised raises and nothing is sent.
\<close>

definition get_answer_from_kg ::
  "('w, 'r) env \<Rightarrow> 'w state \<Rightarrow> 'r list \<Rightarrow> pystr \<Rightarrow> (exn + pystr) \<times> 'w state" where
  "get_answer_from_kg env st kg_records question =
     (case json_dumps env kg_records of
        Inl e \<Rightarrow> (Inl e, st)
      | Inr dumped \<Rightarrow>
          (let (posted, w) =
                 requests_post env (world st) (DEEPSEEK_API_URL env) (headers env)
                   (answer_data dumped question);
               st' = \<lparr>world = w,
                      trace = trace st @
                        [Post (DEEPSEEK_API_URL env) (headers env) (answer_data dumped question)]\<rparr>
           in (bindE posted (\<lambda>response.
               bindE (first_content response) strip_method), st')))"

text \<open>
  \<open>JSONResponse(content=..., status_code=...)\<close>, status 200 when none is given. The value
  is the pair the endpoint hands to the framework; how the framework encodes it is not
  part of \<open>main.py\<close>.
\<close>

datatype json_response = JSONResponse (content: pydict) (status_code: nat)

definition error_response :: "exn \<Rightarrow> json_response" where
  "error_response e =
     JSONResponse [(str_of ''answer'', PyStr (str_of ''Error: '' @ exc_str e))] 500"

definition ask_question ::
  "('w, 'r) env \<Rightarrow> 'w state \<Rightarrow> pystr \<Rightarrow> json_response \<times> 'w state" where
  "ask_question env st q =
     (case generate_cypher_query env st q of
        (Inl e, st1) \<Rightarrow> (error_response e, st1)
      | (Inr cypher_query, st1) \<Rightarrow>
          (case run_cypher env st1 cypher_query None of
             (Inl e, st2) \<Rightarrow> (error_response e, st2)
           | (Inr kg_records, st2) \<Rightarrow>
               (case get_answer_from_kg env st2 kg_records q of
                  (Inl e, st3) \<Rightarrow> (error_response e, st3)
                | (Inr answer, st3) \<Rightarrow>
                    (JSONResponse [(str_of ''answer'', PyStr answer)] 200, st3))))"

subsection \<open>The graph endpoints\<close>

text \<open>
  \<open>node_names = set()\<close> and \<open>node_names.add(v)\<close>. A list or a dict is unhashable and
  \<open>add\<close> raises \<open>TypeError\<close>; two hashable values are the same element when Python's
  \<open>==\<close> holds, which identifies \<open>True\<close> with \<open>1\<close> and \<open>False\<close> with \<open>0\<close>. The set is
  kept as the list of its elements in the order of insertion.
\<close>

fun hashable :: "pyval \<Rightarrow> bool" where
  "hashable (PyList xs) = False"
| "hashable (PyDict kvs) = False"
| "hashable v = True"

fun py_key :: "pyval \<Rightarrow> pyval" where
  "py_key (PyBool b) = PyInt (if b then 1 else 0)"
| "py_key v = v"

definition py_eq :: "pyval \<Rightarrow> pyval \<Rightarrow> bool" where
  "py_eq a b \<longleftrightarrow> py_key a = py_key b"

definition set_add :: "pyval list \<Rightarrow> pyval \<Rightarrow> exn + pyval list" where
  "set_add s v =
     (if \<not> hashable v
      then Inl (Exn TypeError (str_of ''unhashable type: '' @ quoted (type_name v)))
      else if list_ex (\<lambda>y. py_eq y v) s then Inr s
      else Inr (s @ [v]))"

text \<open>
  The loop \<open>for link in links: node_names.add(link["source"]); node_names.add(link["target"])\<close>.
\<close>

fun add_names :: "pyval list \<Rightarrow> pydict list \<Rightarrow> exn + pyval list" where
  "add_names node_names [] = Inr node_names"
| "add_names node_names (link # links) =
     (case subscript (PyDict link) (str_of ''source'') of
        Inl e \<Rightarrow> Inl e
      | Inr s \<Rightarrow>
          (case set_add node_names s of
             Inl e \<Rightarrow> Inl e
           | Inr names1 \<Rightarrow>
               (case subscript (PyDict link) (str_of ''target'') of
                  Inl e \<Rightarrow> Inl e
                | Inr t \<Rightarrow>
                    (case set_add names1 t of
                       Inl e \<Rightarrow> Inl e
                     | Inr names2 \<Rightarrow> add_names names2 links))))"

text \<open>The dict \<open>{"nodes": nodes, "links": links}\<close> that both endpoints return.\<close>

record projection =
  nodes :: "pydict list"
  links :: "pydict list"

text \<open>
  The lines that \<open>get_full_graph\<close> and \<open>search_subgraph\<close> both run on the rows of the
  store (the source repeats them word for word): collect the names, then
  \<open>nodes = [{"name": name} for name in node_names]\<close>.
\<close>

definition node_extraction :: "('w, pydict) env \<Rightarrow> pydict list \<Rightarrow> exn + projection" where
  "node_extraction env rows =
     bindE (add_names [] rows) (\<lambda>node_names.
     Inr \<lparr>nodes = map (\<lambda>name. [(str_of ''name'', name)]) (set_iter env node_names),
          links = rows\<rparr>)"

definition get_full_graph ::
  "('w, pydict) env \<Rightarrow> 'w state \<Rightarrow> int \<Rightarrow> (exn + projection) \<times> 'w state" where
  "get_full_graph env st limit =
     (case run_cypher env st graph_query (Some [(str_of ''limit'', PyInt limit)]) of
        (Inl e, st1) \<Rightarrow> (Inl e, st1)
      | (Inr rows, st1) \<Rightarrow> (node_extraction env rows, st1))"

definition search_subgraph ::
  "('w, pydict) env \<Rightarrow> 'w state \<Rightarrow> pystr \<Rightarrow> (exn + projection) \<times> 'w state" where
  "search_subgraph env st q =
     (case run_cypher env st search_query (Some [(str_of ''q'', PyStr q)]) of
        (Inl e, st1) \<Rightarrow> (Inl e, st1)
      | (Inr rows, st1) \<Rightarrow> (node_extraction env rows, st1))"

subsection \<open>The routes\<close>

text \<open>
  What the decorators and the parameter declarations ask of the HTTP layer: a handler
  runs once its parameters are valid; a value it returns is sent with status 200, an
  exception it lets through is a server error. \<open>limit: int = 300\<close> defaults to 300;
  \<open>q: str = Query(..., min_length=1)\<close> is required and at least one character long,
  otherwise the layer answers 422 and the handler does not run.
\<close>

datatype 'a http = Returned 'a | Unprocessable | ServerError exn

fun http_status :: "'a http \<Rightarrow> nat" where
  "http_status (Returned x) = 200"
| "http_status Unprocessable = 422"
| "http_status (ServerError e) = 500"

definition served :: "(exn + 'a) \<times> 's \<Rightarrow> 'a http \<times> 's" where
  "served r = (case r of (Inl e, st) \<Rightarrow> (ServerError e, st) | (Inr x, st) \<Rightarrow> (Returned x, st))"

definition api_graph ::
  "('w, pydict) env \<Rightarrow> 'w state \<Rightarrow> int option \<Rightarrow> projection http \<times> 'w state" where
  "api_graph env st limit =
     served (get_full_graph env st (case limit of None \<Rightarrow> 300 | Some n \<Rightarrow> n))"

definition api_search ::
  "('w, pydict) env \<Rightarrow> 'w state \<Rightarrow> pystr option \<Rightarrow> projection http \<times> 'w state" where
  "api_search env st q =
     (case q of
        None \<Rightarrow> (Unprocessable, st)
      | Some s \<Rightarrow>
          if length s < 1 then (Unprocessable, st) else served (search_subgraph env st s))"

section \<open>What the store does with the two fixed queries\<close>

text \<open>
  The two queries are program text too. Over a store whose relationships, in the order
  the store traverses them, are a list of edges with a name (a string, or no \<open>name\<close>
  property: \<open>null\<close>) at each end, the text of \<open>graph_query\<close> returns one row per edge, the
  first \<open>$limit\<close> of them. The text of \<open>search_query\<close> keeps the edges whose \<open>WHERE\<close>
  clause is true and returns the first 100. In Cypher \<open>toLower(null)\<close> and
  \<open>null CONTAINS s\<close> are \<open>null\<close>, \<open>OR\<close> is three-valued, and \<open>WHERE\<close> keeps a row only when
  the condition is true. \<open>toLower\<close> is the store's function and is a parameter.
\<close>

record edge =
  n_name :: "pystr option"
  rel_type :: pystr
  m_name :: "pystr option"

definition name_value :: "pystr option \<Rightarrow> pyval" where
  "name_value n = (case n of None \<Rightarrow> PyNone | Some s \<Rightarrow> PyStr s)"

definition link_row :: "edge \<Rightarrow> pydict" where
  "link_row e =
     [(str_of ''source'', name_value (n_name e)),
      (str_of ''target'', name_value (m_name e)),
      (str_of ''relation'', PyStr (rel_type e))]"

definition graph_rows :: "edge list \<Rightarrow> nat \<Rightarrow> pydict list" where
  "graph_rows g n = take n (map link_row g)"

definition cypher_contains :: "(pystr \<Rightarrow> pystr) \<Rightarrow> pystr option \<Rightarrow> pystr \<Rightarrow> bool option" where
  "cypher_contains toLower n q =
     (case n of None \<Rightarrow> None | Some s \<Rightarrow> Some (sublist (toLower q) (toLower s)))"

fun cypher_or :: "bool option \<Rightarrow> bool option \<Rightarrow> bool option" where
  "cypher_or (Some True) b = Some True"
| "cypher_or a (Some True) = Some True"
| "cypher_or (Some False) (Some False) = Some False"
| "cypher_or a b = None"

definition search_where :: "(pystr \<Rightarrow> pystr) \<Rightarrow> pystr \<Rightarrow> edge \<Rightarrow> bool" where
  "search_where toLower q e \<longleftrightarrow>
     cypher_or (cypher_contains toLower (n_name e) q) (cypher_contains toLower (m_name e) q)
       = Some True"

definition search_rows :: "(pystr \<Rightarrow> pystr) \<Rightarrow> edge list \<Rightarrow> pystr \<Rightarrow> pydict list" where
  "search_rows toLower g q = take 100 (map link_row (filter (search_where toLower q) g))"

text \<open>\<open>q\<close> is a case-insensitive substring of the name \<open>v\<close> (which must be a string).\<close>

fun ci_substring :: "(pystr \<Rightarrow> pystr) \<Rightarrow> pystr \<Rightarrow> pyval \<Rightarrow> bool" where
  "ci_substring toLower q (PyStr s) = sublist (toLower q) (toLower s)"
| "ci_substring toLower q v = False"

section \<open>Notions used to state the properties\<close>

text \<open>The values that occur as \<open>source\<close> or \<open>target\<close> in a list of rows.\<close>

definition link_names :: "pydict list \<Rightarrow> pyval set" where
  "link_names rows =
     (\<Union>l\<in>set rows.
        set_option (map_of l (str_of ''source'')) \<union> set_option (map_of l (str_of ''target'')))"

text \<open>Every row has a \<open>source\<close> and a \<open>target\<close>, and both are hashable.\<close>

definition hashable_names :: "pydict list \<Rightarrow> bool" where
  "hashable_names rows =
     list_all (\<lambda>l. case (map_of l (str_of ''source''), map_of l (str_of ''target'')) of
                     (Some s, Some t) \<Rightarrow> hashable s \<and> hashable t
                   | _ \<Rightarrow> False) rows"

text \<open>A name as the spec's data model has it: a string, or \<open>None\<close> for a missing property.\<close>

fun plain :: "pyval \<Rightarrow> bool" where
  "plain PyNone = True"
| "plain (PyStr s) = True"
| "plain v = False"

text \<open>\<open>sep.join(pieces)\<close>, to say what is left when separators are taken out.\<close>

fun join :: "'a list \<Rightarrow> 'a list list \<Rightarrow> 'a list" where
  "join sep [] = []"
| "join sep [x] = x"
| "join sep (x # y # ys) = x @ sep @ join sep (y # ys)"

abbreviation tick :: "nat \<Rightarrow> bool" where
  "tick \<equiv> (\<lambda>c. c = 96)"

section \<open>A scripted environment\<close>

text \<open>
  An environment to run the functions on concrete inputs: the world is the list of the
  responses the model provider will give, one per request (none left: the connection
  fails); the store is a function of the query and its parameters; a set is iterated in
  the order of insertion.
\<close>

definition scripted ::
  "(pystr \<Rightarrow> pydict \<Rightarrow> exn + 'r list) \<Rightarrow> ('r list \<Rightarrow> exn + pystr) \<Rightarrow> (response list, 'r) env" where
  "scripted store dumps =
     \<lparr>DEEPSEEK_API_URL = str_of ''https://api.deepseek.com/chat/completions'',
      DEEPSEEK_API_KEY = str_of ''sk-test'',
      requests_post =
        (\<lambda>w url hs d.
           case w of
             [] \<Rightarrow> (Inl (Exn (LibraryError (str_of ''ConnectionError''))
                      (str_of ''connection refused'')), [])
           | r # rs \<Rightarrow> (Inr r, rs)),
      session_run = (\<lambda>w query params. (store query params, w)),
      json_dumps = dumps,
      set_iter = (\<lambda>names. names)\<rparr>"

text \<open>A well-formed completion whose first choice has the given content.\<close>

definition completion :: "pystr \<Rightarrow> response" where
  "completion c =
     Response (Inr (PyDict
       [(str_of ''choices'',
         PyList [PyDict [(str_of ''index'', PyInt 0),
                         (str_of ''message'',
                          PyDict [(str_of ''role'', PyStr (str_of ''assistant'')),
                                  (str_of ''content'', PyStr c)])]])]))"

text \<open>
  A store over a list of edges that answers the two fixed queries as their text says and
  rejects a negative \<open>$limit\<close> and any other query.
\<close>

definition ascii_lower :: "pystr \<Rightarrow> pystr" where
  "ascii_lower s = map (\<lambda>c. if 65 \<le> c \<and> c \<le> 90 then c + 32 else c) s"

definition client_error :: "pystr \<Rightarrow> exn" where
  "client_error msg = Exn (LibraryError (str_of ''ClientError'')) msg"

definition edge_store :: "edge list \<Rightarrow> pystr \<Rightarrow> pydict \<Rightarrow> exn + pydict list" where
  "edge_store g query params =
     (if query = graph_query then
        (case map_of params (str_of ''limit'') of
           Some (PyInt n) \<Rightarrow>
             if n < 0 then Inl (client_error (str_of ''LIMIT: must be a non-negative integer''))
             else Inr (graph_rows g (nat n))
         | _ \<Rightarrow> Inl (client_error (str_of ''expected parameter limit'')))
      else if query = search_query then
        (case map_of params (str_of ''q'') of
           Some (PyStr s) \<Rightarrow> Inr (search_rows ascii_lower g s)
         | _ \<Rightarrow> Inl (client_error (str_of ''expected parameter q'')))
      else Inl (client_error (str_of ''query not understood'')))"

definition no_dumps :: "pydict list \<Rightarrow> exn + pystr" where
  "no_dumps rows = Inl (Exn TypeError (str_of ''not JSON serializable''))"

definition fixed_store :: "'r list \<Rightarrow> pystr \<Rightarrow> pydict \<Rightarrow> exn + 'r list" where
  "fixed_store rows query params = Inr rows"

definition canned_dumps :: "pystr \<Rightarrow> 'r list \<Rightarrow> exn + pystr" where
  "canned_dumps text rows = Inr text"

text \<open>
  A completion as models give it, a query between two fences on lines of their own, the
  query that \<open>generate_cypher_query\<close> makes of it, and the store of the spec's scenario.
\<close>

definition fenced :: pystr where
  "fenced = fence @ 10 # str_of ''MATCH (n) RETURN n'' @ 10 # fence"

definition plain_query :: pystr where
  "plain_query = 10 # str_of ''MATCH (n) RETURN n'' @ [10]"

definition demo_graph :: "edge list" where
  "demo_graph =
     [\<lparr>n_name = Some (str_of ''Catalyst''), rel_type = str_of ''CATALYZES'',
       m_name = Some (str_of ''B'')\<rparr>,
      \<lparr>n_name = Some (str_of ''B''), rel_type = str_of ''AFFECTS'',
       m_name = Some (str_of ''C'')\<rparr>]"

section \<open>Lemmas\<close>

subsection \<open>Removing the fences\<close>

lemma replace_other:
  "old \<noteq> [] \<Longrightarrow> \<not> prefix old (c # cs) \<Longrightarrow> replace old new (c # cs) = c # replace old new cs"
  by simp

lemma replace_prefix:
  "old \<noteq> [] \<Longrightarrow> replace old new (old @ r) = new @ replace old new r"
  by (cases old) simp_all

lemma fence_not_Nil: "fence \<noteq> []"
  by (simp add: fence_def)

declare replace.simps [simp del]

lemma replace_fence_induct [case_names Nil Fence Other]:
  assumes "P []"
    and "\<And>r. P r \<Longrightarrow> P (fence @ r)"
    and "\<And>c cs. \<not> prefix fence (c # cs) \<Longrightarrow> P cs \<Longrightarrow> P (c # cs)"
  shows "P s"
proof (induction s rule: length_induct)
  case (1 xs)
  show ?case
  proof (cases xs)
    case Nil
    then show ?thesis using assms(1) by simp
  next
    case (Cons c cs)
    show ?thesis
    proof (cases "prefix fence xs")
      case True
      then obtain r where r: "xs = fence @ r" by (auto simp: prefix_def)
      then have "length r < length xs" by (simp add: fence_def)
      then have "P r" using 1 by blast
      then show ?thesis unfolding r by (rule assms(2))
    next
      case False
      have "P cs" using 1 Cons by simp
      then show ?thesis using assms(3) False Cons by simp
    qed
  qed
qed

lemma lead_replace:
  "length (takeWhile tick (replace fence [] s)) \<le> length (takeWhile tick s)"
proof (induction s rule: replace_fence_induct)
  case Nil
  show ?case by (simp add: replace.simps)
next
  case (Fence r)
  have "length (takeWhile tick r) \<le> length (takeWhile tick (fence @ r))"
    by (simp add: fence_def)
  then show ?case using Fence by (simp add: replace_prefix fence_not_Nil)
next
  case (Other c cs)
  then show ?case by (simp add: replace_other fence_not_Nil)
qed

lemma prefix_fence_lead: "prefix fence s \<longleftrightarrow> 3 \<le> length (takeWhile tick s)"
proof
  assume "prefix fence s"
  then obtain r where "s = fence @ r" by (auto simp: prefix_def)
  then show "3 \<le> length (takeWhile tick s)" by (simp add: fence_def)
next
  assume a: "3 \<le> length (takeWhile tick s)"
  have s: "s = takeWhile tick s @ dropWhile tick s" by simp
  have "\<forall>x\<in>set (takeWhile tick s). x = 96" by (auto dest: set_takeWhileD)
  then have "takeWhile tick s = replicate (length (takeWhile tick s)) 96"
    by (simp add: replicate_length_same)
  moreover obtain k where "length (takeWhile tick s) = 3 + k" using a by (metis le_Suc_ex)
  ultimately have "takeWhile tick s = fence @ replicate k 96"
    by (simp add: fence_def numeral_3_eq_3)
  then show "prefix fence s" using s by (metis append_assoc prefixI)
qed

lemma no_fence_replace: "\<not> sublist fence (replace fence [] s)"
proof (induction s rule: replace_fence_induct)
  case Nil
  show ?case by (simp add: replace.simps fence_def)
next
  case (Fence r)
  then show ?case by (simp add: replace_prefix fence_not_Nil)
next
  case (Other c cs)
  have "\<not> prefix fence (c # replace fence [] cs)"
  proof (cases "c = 96")
    case True
    have "length (takeWhile tick (c # cs)) < 3"
      using Other(1) by (simp add: prefix_fence_lead)
    then have "length (takeWhile tick (c # replace fence [] cs)) < 3"
      using True lead_replace [of cs] by simp
    then show ?thesis by (simp add: prefix_fence_lead)
  next
    case False
    then show ?thesis by (simp add: fence_def)
  qed
  then show ?case using Other(2)
    by (simp add: replace_other fence_not_Nil Other(1) sublist_Cons_right)
qed

lemma join_Cons_Cons: "join sep ((c # p) # ps) = c # join sep (p # ps)"
  by (cases ps) simp_all

lemma replace_fence_pieces:
  "\<exists>p ps. s = join fence (p # ps) \<and> replace fence [] s = concat (p # ps)"
proof (induction s rule: replace_fence_induct)
  case Nil
  have "[] = join fence ([] # []) \<and> replace fence [] [] = concat ([] # [])"
    by (simp add: replace.simps)
  then show ?case by blast
next
  case (Fence r)
  then obtain p ps where r: "r = join fence (p # ps)"
    and c: "replace fence [] r = concat (p # ps)" by blast
  have "fence @ r = join fence ([] # p # ps)" using r by simp
  moreover have "replace fence [] (fence @ r) = concat ([] # p # ps)"
    using c by (simp add: replace_prefix fence_not_Nil)
  ultimately show ?case by blast
next
  case (Other c cs)
  then obtain p ps where r: "cs = join fence (p # ps)"
    and e: "replace fence [] cs = concat (p # ps)" by blast
  have "c # cs = join fence ((c # p) # ps)" using r by (simp add: join_Cons_Cons)
  moreover have "replace fence [] (c # cs) = concat ((c # p) # ps)"
    using e Other(1) by (simp add: replace_other fence_not_Nil)
  ultimately show ?case by blast
qed

lemma strip_decomp:
  "\<exists>pre suf. s = pre @ strip s @ suf \<and> list_all isspace pre \<and> list_all isspace suf"
proof -
  let ?a = "takeWhile isspace s"
  let ?m = "dropWhile isspace s"
  let ?b = "rev (takeWhile isspace (rev ?m))"
  have "rev ?m = takeWhile isspace (rev ?m) @ dropWhile isspace (rev ?m)" by simp
  then have "?m = strip s @ ?b"
    by (metis strip_def rev_append rev_rev_ident)
  then have "s = ?a @ strip s @ ?b" by (metis takeWhile_dropWhile_id)
  moreover have "list_all isspace ?a" by (auto simp: list_all_iff dest: set_takeWhileD)
  moreover have "list_all isspace ?b" by (auto simp: list_all_iff dest: set_takeWhileD)
  ultimately show ?thesis by blast
qed

lemma strip_ends:
  assumes "strip s \<noteq> []"
  shows "\<not> isspace (hd (strip s)) \<and> \<not> isspace (last (strip s))"
proof -
  let ?m = "dropWhile isspace s"
  let ?d = "dropWhile isspace (rev ?m)"
  have d: "?d \<noteq> []" using assms by (simp add: strip_def)
  have "last (strip s) = hd ?d" using d by (simp add: strip_def last_rev)
  then have l: "\<not> isspace (last (strip s))" using d hd_dropWhile [of isspace "rev ?m"] by simp
  have "rev ?m = takeWhile isspace (rev ?m) @ ?d" by simp
  then have m: "?m = strip s @ rev (takeWhile isspace (rev ?m))"
    by (metis strip_def rev_append rev_rev_ident)
  have "?m \<noteq> []"
  proof
    assume e: "?m = []"
    have "strip s = []" unfolding strip_def e by simp
    then show False using assms by simp
  qed
  then have "\<not> isspace (hd ?m)" by (rule hd_dropWhile)
  moreover have "hd ?m = hd (strip s)" using m assms by (metis hd_append2)
  ultimately show ?thesis using l by simp
qed

subsection \<open>The steps of the pipeline\<close>

lemma bindE_simps [simp]:
  "bindE (Inl e) f = Inl e"
  "bindE (Inr x) f = f x"
  by (simp_all add: bindE_def)

lemma bindE_eq_Inr:
  "bindE r f = Inr y \<longleftrightarrow> (\<exists>x. r = Inr x \<and> f x = Inr y)"
  by (cases r) simp_all

lemma run_cypher_trace:
  "run_cypher env st query params = (result, st1) \<Longrightarrow>
   trace st1 = trace st @ [Run query (case params of None \<Rightarrow> [] | Some d \<Rightarrow> d)]"
  by (auto simp: run_cypher_def Let_def split: prod.splits option.splits)

lemma generate_trace:
  "generate_cypher_query env st q = (result, st1) \<Longrightarrow>
   trace st1 = trace st @ [Post (DEEPSEEK_API_URL env) (headers env) (generate_data q)]"
  by (auto simp: generate_cypher_query_def Let_def split: prod.splits)

lemma get_answer_trace:
  "get_answer_from_kg env st rows q = (Inr answer, st1) \<Longrightarrow>
   \<exists>dumped. json_dumps env rows = Inr dumped \<and>
     trace st1 = trace st @ [Post (DEEPSEEK_API_URL env) (headers env) (answer_data dumped q)]"
  by (auto simp: get_answer_from_kg_def Let_def split: prod.splits sum.splits)

lemma first_content_completion: "first_content (completion c) = Inr (PyStr c)"
  by (simp add: first_content_def completion_def str_of_def)

lemma generate_success:
  assumes "requests_post env (world st) (DEEPSEEK_API_URL env) (headers env) (generate_data question)
           = (Inr response, w)"
    and "first_content response = Inr (PyStr c)"
  shows "generate_cypher_query env st question =
     (Inr (replace fence [] (strip c)),
      \<lparr>world = w,
       trace = trace st @ [Post (DEEPSEEK_API_URL env) (headers env) (generate_data question)]\<rparr>)"
  using assms by (simp add: generate_cypher_query_def)

lemma get_answer_success:
  assumes "json_dumps env rows = Inr dumped"
    and "requests_post env (world st) (DEEPSEEK_API_URL env) (headers env) (answer_data dumped q)
           = (Inr response, w)"
    and "first_content response = Inr (PyStr c)"
  shows "get_answer_from_kg env st rows q =
     (Inr (strip c),
      \<lparr>world = w,
       trace = trace st @ [Post (DEEPSEEK_API_URL env) (headers env) (answer_data dumped q)]\<rparr>)"
  using assms by (simp add: get_answer_from_kg_def)

subsection \<open>Collecting the node names\<close>

lemma keys_distinct:
  "str_of ''source'' \<noteq> str_of ''target''"
  "str_of ''target'' \<noteq> str_of ''source''"
  by (simp_all add: str_of_def)

lemma link_row_source: "map_of (link_row e) (str_of ''source'') = Some (name_value (n_name e))"
  by (simp add: link_row_def)

lemma link_row_target: "map_of (link_row e) (str_of ''target'') = Some (name_value (m_name e))"
  by (simp add: link_row_def keys_distinct)

lemma plain_name_value: "plain (name_value n)"
  by (cases n) (simp_all add: name_value_def)

lemma plain_hashable: "plain v \<Longrightarrow> hashable v"
  by (cases v) simp_all

lemma plain_py_eq: "plain a \<Longrightarrow> plain b \<Longrightarrow> py_eq a b \<longleftrightarrow> a = b"
  by (cases a; cases b) (simp_all add: py_eq_def)

lemma set_add_plain:
  assumes "list_all plain acc" and "plain v"
  shows "set_add acc v = Inr (if v \<in> set acc then acc else acc @ [v])"
proof -
  have "list_ex (\<lambda>y. py_eq y v) acc \<longleftrightarrow> v \<in> set acc"
    using assms by (auto simp: list_ex_iff list_all_iff plain_py_eq)
  then show ?thesis using assms(2) by (simp add: set_add_def plain_hashable)
qed

lemma set_add_hashable: "hashable v \<Longrightarrow> \<exists>ns. set_add acc v = Inr ns"
  by (simp add: set_add_def)

lemma add_names_hashable:
  "hashable_names rows \<Longrightarrow> \<exists>ns. add_names acc rows = Inr ns"
proof (induction rows arbitrary: acc)
  case Nil
  show ?case by simp
next
  case (Cons l rows)
  from Cons.prems obtain s t where s: "map_of l (str_of ''source'') = Some s" "hashable s"
    and t: "map_of l (str_of ''target'') = Some t" "hashable t"
    and rest: "hashable_names rows"
    by (auto simp: hashable_names_def split: option.splits)
  obtain n1 where n1: "set_add acc s = Inr n1" using set_add_hashable [OF s(2)] by blast
  obtain n2 where n2: "set_add n1 t = Inr n2" using set_add_hashable [OF t(2)] by blast
  show ?case using s(1) t(1) n1 n2 Cons.IH [OF rest, of n2] by simp
qed

lemma add_names_link_rows:
  assumes "list_all plain acc"
  shows "\<exists>ns. add_names acc (map link_row es) = Inr ns
    \<and> set ns = set acc \<union> (\<Union>e\<in>set es. {name_value (n_name e), name_value (m_name e)})
    \<and> (distinct acc \<longrightarrow> distinct ns)"
  using assms
proof (induction es arbitrary: acc)
  case Nil
  show ?case by simp
next
  case (Cons e es)
  let ?s = "name_value (n_name e)"
  let ?t = "name_value (m_name e)"
  let ?n1 = "if ?s \<in> set acc then acc else acc @ [?s]"
  let ?n2 = "if ?t \<in> set ?n1 then ?n1 else ?n1 @ [?t]"
  have a1: "set_add acc ?s = Inr ?n1"
    using Cons.prems by (rule set_add_plain) (rule plain_name_value)
  have p1: "list_all plain ?n1" using Cons.prems by (simp add: plain_name_value)
  have a2: "set_add ?n1 ?t = Inr ?n2"
    using p1 by (rule set_add_plain) (rule plain_name_value)
  have p2: "list_all plain ?n2" using p1 by (simp add: plain_name_value)
  obtain ns where ns: "add_names ?n2 (map link_row es) = Inr ns"
    and sn: "set ns = set ?n2 \<union> (\<Union>e\<in>set es. {name_value (n_name e), name_value (m_name e)})"
    and dn: "distinct ?n2 \<longrightarrow> distinct ns"
    using Cons.IH [OF p2] by blast
  have "add_names acc (map link_row (e # es)) = Inr ns"
    using a1 a2 ns by (simp add: link_row_source link_row_target)
  moreover have "set ns = set acc \<union> (\<Union>e\<in>set (e # es). {name_value (n_name e), name_value (m_name e)})"
    using sn by auto
  moreover have "distinct acc \<longrightarrow> distinct ns" using dn by simp
  ultimately show ?case by blast
qed

lemma link_names_link_rows:
  "link_names (map link_row es) = (\<Union>e\<in>set es. {name_value (n_name e), name_value (m_name e)})"
  by (auto simp: link_names_def link_row_source link_row_target)

lemma add_names_link_rows_Nil:
  "\<exists>ns. add_names [] (map link_row es) = Inr ns
     \<and> set ns = link_names (map link_row es) \<and> distinct ns"
proof -
  have "list_all plain []" by simp
  from add_names_link_rows [OF this, of es] show ?thesis
    by (simp add: link_names_link_rows)
qed

lemma node_extraction_link_rows:
  assumes "\<forall>xs. mset (set_iter env xs) = mset xs"
  shows "\<exists>p. node_extraction env (map link_row es) = Inr p
    \<and> links p = map link_row es
    \<and> distinct (nodes p)
    \<and> set (nodes p) = (\<lambda>name. [(str_of ''name'', name)]) ` link_names (map link_row es)"
proof -
  obtain ns where ns: "add_names [] (map link_row es) = Inr ns"
    and sn: "set ns = link_names (map link_row es)" and dn: "distinct ns"
    using add_names_link_rows_Nil [of es] by blast
  have m: "mset (set_iter env ns) = mset ns" using assms by blast
  have s1: "set (set_iter env ns) = set ns" using m by (rule mset_eq_setD)
  have d1: "distinct (set_iter env ns)" using mset_eq_imp_distinct_iff [OF m] dn by blast
  let ?node = "\<lambda>name::pyval. [(str_of ''name'', name)]"
  let ?p = "\<lparr>nodes = map ?node (set_iter env ns), links = map link_row es\<rparr>"
  have e: "node_extraction env (map link_row es) = Inr ?p"
    by (simp only: node_extraction_def ns bindE_simps)
  have i: "inj_on ?node (set (set_iter env ns))" by (rule inj_onI) simp
  have d: "distinct (nodes ?p)" using d1 i by (simp add: distinct_map)
  have s: "set (nodes ?p) = ?node ` link_names (map link_row es)"
    using s1 sn by simp
  have l: "links ?p = map link_row es" by simp
  show ?thesis using e d s l by blast
qed

lemma run_cypher_Some:
  "params \<noteq> [] \<Longrightarrow> run_cypher env st query (Some params) =
     (fst (session_run env (world st) query params),
      \<lparr>world = snd (session_run env (world st) query params),
       trace = trace st @ [Run query params]\<rparr>)"
  by (simp add: run_cypher_def Let_def split: prod.splits)

lemma graph_rows_map: "graph_rows g n = map link_row (take n g)"
  by (simp add: graph_rows_def take_map)

lemma search_rows_map:
  "search_rows toLower g q = map link_row (take 100 (filter (search_where toLower q) g))"
  by (simp add: search_rows_def take_map)

lemma cypher_or_True: "cypher_or a b = Some True \<Longrightarrow> a = Some True \<or> b = Some True"
  by (cases "(a, b)" rule: cypher_or.cases) simp_all

lemma cypher_contains_True:
  "cypher_contains toLower n q = Some True \<Longrightarrow> ci_substring toLower q (name_value n)"
  by (cases n) (simp_all add: cypher_contains_def name_value_def)

lemma search_where_ci:
  "search_where toLower q e \<Longrightarrow>
   ci_substring toLower q (name_value (n_name e)) \<or> ci_substring toLower q (name_value (m_name e))"
  unfolding search_where_def by (blast dest: cypher_or_True cypher_contains_True)

lemma node_extraction_links: "node_extraction env rows = Inr p \<Longrightarrow> links p = rows"
  by (auto simp: node_extraction_def bindE_eq_Inr)

subsection \<open>Running the scripted environment\<close>

lemma requests_post_scripted:
  "requests_post (scripted store dumps) (r # rs) url hs d = (Inr r, rs)"
  by (simp add: scripted_def)

lemma strip_fenced: "strip fenced = fenced"
  by (simp add: fenced_def strip_def fence_def str_of_def isspace_def)

lemma replace_fenced: "replace fence [] fenced = 10 # str_of ''MATCH (n) RETURN n'' @ [10]"
  by (simp add: fenced_def fence_def str_of_def replace.simps)

lemma queries_differ: "search_query \<noteq> graph_query" "graph_query \<noteq> search_query"
  by (simp_all add: search_query_def graph_query_def)

lemma session_run_scripted:
  "session_run (scripted store dumps) w query params = (store query params, w)"
  by (simp add: scripted_def)

lemma set_iter_scripted: "set_iter (scripted store dumps) xs = xs"
  by (simp add: scripted_def)

lemma edge_store_graph:
  "0 \<le> n \<Longrightarrow> edge_store g graph_query [(str_of ''limit'', PyInt n)] = Inr (graph_rows g (nat n))"
  by (simp add: edge_store_def)

lemma edge_store_graph_negative:
  "n < 0 \<Longrightarrow> edge_store g graph_query [(str_of ''limit'', PyInt n)]
     = Inl (client_error (str_of ''LIMIT: must be a non-negative integer''))"
  by (simp add: edge_store_def)

lemma edge_store_search:
  "edge_store g search_query [(str_of ''q'', PyStr q)] = Inr (search_rows ascii_lower g q)"
  by (simp add: edge_store_def queries_differ)

lemma json_dumps_scripted: "json_dumps (scripted store dumps) rows = dumps rows"
  by (simp add: scripted_def)

lemma run_cypher_scripted:
  "run_cypher (scripted store dumps) st query None =
     (store query [], \<lparr>world = world st, trace = trace st @ [Run query []]\<rparr>)"
  by (simp add: run_cypher_def scripted_def)

lemma generate_scripted:
  "generate_cypher_query (scripted store dumps) \<lparr>world = completion fenced # rs, trace = []\<rparr> q =
     (Inr plain_query,
      \<lparr>world = rs,
       trace = [Post (DEEPSEEK_API_URL (scripted store dumps)) (headers (scripted store dumps))
                 (generate_data q)]\<rparr>)"
proof -
  let ?E = "scripted store dumps"
  let ?S = "\<lparr>world = completion fenced # rs, trace = []\<rparr>"
  have h1: "requests_post ?E (world ?S) (DEEPSEEK_API_URL ?E) (headers ?E) (generate_data q)
              = (Inr (completion fenced), rs)"
    by (simp add: requests_post_scripted)
  from generate_success [OF h1 first_content_completion] show ?thesis
    by (simp add: strip_fenced replace_fenced plain_query_def)
qed

lemma strip_answer: "strip (str_of '' It catalyzes B. '') = str_of ''It catalyzes B.''"
  by (simp add: strip_def isspace_def str_of_def)

lemma answer_scripted:
  "get_answer_from_kg (scripted store (canned_dumps text))
     \<lparr>world = completion (str_of '' It catalyzes B. '') # rs, trace = tr\<rparr> rows q =
     (Inr (str_of ''It catalyzes B.''),
      \<lparr>world = rs,
       trace = tr @ [Post (DEEPSEEK_API_URL (scripted store (canned_dumps text)))
                 (headers (scripted store (canned_dumps text))) (answer_data text q)]\<rparr>)"
proof -
  let ?E = "scripted store (canned_dumps text)"
  let ?S = "\<lparr>world = completion (str_of '' It catalyzes B. '') # rs, trace = tr\<rparr>"
  have h0: "json_dumps ?E rows = Inr text"
    by (simp add: json_dumps_scripted canned_dumps_def)
  have h1: "requests_post ?E (world ?S) (DEEPSEEK_API_URL ?E) (headers ?E) (answer_data text q)
              = (Inr (completion (str_of '' It catalyzes B. '')), rs)"
    by (simp add: requests_post_scripted)
  from get_answer_success [OF h0 h1 first_content_completion] show ?thesis
    by (simp add: strip_answer)
qed

lemma edge_store_other:
  "edge_store g plain_query [] = Inl (client_error (str_of ''query not understood''))"
  by (simp add: edge_store_def plain_query_def graph_query_def search_query_def str_of_def)

lemma strip_padded: "strip (32 # fenced @ [32]) = fenced"
  by (simp add: strip_def fenced_def fence_def str_of_def isspace_def)

lemma get_full_graph_link_rows:
  assumes "session_run env (world st) graph_query [(str_of ''limit'', PyInt n)]
             = (Inr (map link_row es), w)"
  shows "\<exists>p. get_full_graph env st n =
     (Inr p, \<lparr>world = w, trace = trace st @ [Run graph_query [(str_of ''limit'', PyInt n)]]\<rparr>)"
proof -
  obtain ns where "add_names [] (map link_row es) = Inr ns"
    using add_names_link_rows_Nil [of es] by blast
  then show ?thesis using assms
    by (simp add: get_full_graph_def run_cypher_Some node_extraction_def)
qed

lemma search_subgraph_link_rows:
  assumes "session_run env (world st) search_query [(str_of ''q'', PyStr q)]
             = (Inr (map link_row es), w)"
  shows "\<exists>p. search_subgraph env st q =
     (Inr p, \<lparr>world = w, trace = trace st @ [Run search_query [(str_of ''q'', PyStr q)]]\<rparr>)"
proof -
  obtain ns where "add_names [] (map link_row es) = Inr ns"
    using add_names_link_rows_Nil [of es] by blast
  then show ?thesis using assms
    by (simp add: search_subgraph_def run_cypher_Some node_extraction_def)
qed

section \<open>The claims\<close>

subsection \<open>The question-answering endpoint\<close>



text \<open>
  C2. Whichever of the three steps raises, \<open>ask_question\<close> catches the exception and
  returns status 500 with the answer \<open>"Error: " + str(e)\<close>; the response is the same
  function of the message for the three steps and for every class of exception, and no
  later step runs.
\<close>

theorem ask_question_catches:
  "(generate_cypher_query env st q = (Inl e, st1) \<longrightarrow>
      ask_question env st q =
        (JSONResponse [(str_of ''answer'', PyStr (str_of ''Error: '' @ exc_str e))] 500, st1))
   \<and> (generate_cypher_query env st q = (Inr cypher_query, st1)
        \<and> run_cypher env st1 cypher_query None = (Inl e, st2) \<longrightarrow>
      ask_question env st q =
        (JSONResponse [(str_of ''answer'', PyStr (str_of ''Error: '' @ exc_str e))] 500, st2))
   \<and> (generate_cypher_query env st q = (Inr cypher_query, st1)
        \<and> run_cypher env st1 cypher_query None = (Inr kg_records, st2)
        \<and> get_answer_from_kg env st2 kg_records q = (Inl e, st3) \<longrightarrow>
      ask_question env st q =
        (JSONResponse [(str_of ''answer'', PyStr (str_of ''Error: '' @ exc_str e))] 500, st3))"
  by (simp add: ask_question_def error_response_def)

theorem ask_question_catches_witness:
  "fst (ask_question (scripted (edge_store []) no_dumps) \<lparr>world = [], trace = []\<rparr>
         (str_of ''What does the catalyst do?''))
     = JSONResponse [(str_of ''answer'', PyStr (str_of ''Error: connection refused''))] 500
   \<and> fst (ask_question (scripted (edge_store []) no_dumps)
         \<lparr>world = [completion fenced], trace = []\<rparr> (str_of ''What does the catalyst do?''))
     = JSONResponse [(str_of ''answer'', PyStr (str_of ''Error: query not understood''))] 500
   \<and> fst (ask_question (scripted (fixed_store ([] :: pydict list)) (canned_dumps (str_of ''[]'')))
         \<lparr>world = [completion fenced, Response (Inr (PyDict []))], trace = []\<rparr>
         (str_of ''What does the catalyst do?''))
     = JSONResponse
         [(str_of ''answer'',
           PyStr (str_of ''Error: '' @ quoted (str_of ''NoneType'')
                  @ str_of '' object is not subscriptable''))] 500"
proof -
  let ?Q = "str_of ''What does the catalyst do?''"
  let ?E = "scripted (edge_store []) no_dumps"
  let ?F = "scripted (fixed_store ([] :: pydict list)) (canned_dumps (str_of ''[]''))"
  let ?S1 = "\<lparr>world = [], trace = [Post (DEEPSEEK_API_URL ?E) (headers ?E) (generate_data ?Q)]\<rparr>"
  let ?S2 = "\<lparr>world = [],
              trace = [Post (DEEPSEEK_API_URL ?E) (headers ?E) (generate_data ?Q)]
                @ [Run plain_query []]\<rparr>"
  let ?T1 = "\<lparr>world = [Response (Inr (PyDict []))],
              trace = [Post (DEEPSEEK_API_URL ?F) (headers ?F) (generate_data ?Q)]\<rparr>"
  let ?T2 = "\<lparr>world = [Response (Inr (PyDict []))],
              trace = [Post (DEEPSEEK_API_URL ?F) (headers ?F) (generate_data ?Q)]
                @ [Run plain_query []]\<rparr>"
  let ?T3 = "\<lparr>world = [],
              trace = ([Post (DEEPSEEK_API_URL ?F) (headers ?F) (generate_data ?Q)]
                @ [Run plain_query []])
                @ [Post (DEEPSEEK_API_URL ?F) (headers ?F) (answer_data (str_of ''[]'') ?Q)]\<rparr>"
  have g1: "generate_cypher_query ?E \<lparr>world = [], trace = []\<rparr> ?Q
      = (Inl (Exn (LibraryError (str_of ''ConnectionError'')) (str_of ''connection refused'')), ?S1)"
    by (simp add: generate_cypher_query_def scripted_def)
  have g2: "generate_cypher_query ?E \<lparr>world = [completion fenced], trace = []\<rparr> ?Q
      = (Inr plain_query, ?S1)"
    by (rule generate_scripted)
  have r2: "run_cypher ?E ?S1 plain_query None
      = (Inl (client_error (str_of ''query not understood'')), ?S2)"
    by (simp add: run_cypher_scripted edge_store_other)
  have g3: "generate_cypher_query ?F
      \<lparr>world = [completion fenced, Response (Inr (PyDict []))], trace = []\<rparr> ?Q
      = (Inr plain_query, ?T1)"
    by (rule generate_scripted)
  have r3: "run_cypher ?F ?T1 plain_query None = (Inr [], ?T2)"
    by (simp add: run_cypher_scripted fixed_store_def)
  have a3: "get_answer_from_kg ?F ?T2 [] ?Q = (Inl (not_subscriptable PyNone), ?T3)"
    by (simp add: get_answer_from_kg_def json_dumps_scripted canned_dumps_def
        requests_post_scripted first_content_def)
  have c1: "fst (ask_question ?E \<lparr>world = [], trace = []\<rparr> ?Q)
      = JSONResponse [(str_of ''answer'', PyStr (str_of ''Error: '' @ str_of ''connection refused''))] 500"
    using ask_question_catches [of ?E "\<lparr>world = [], trace = []\<rparr>" ?Q
        "Exn (LibraryError (str_of ''ConnectionError'')) (str_of ''connection refused'')" ?S1] g1
    by simp
  have c2: "fst (ask_question ?E \<lparr>world = [completion fenced], trace = []\<rparr> ?Q)
      = JSONResponse [(str_of ''answer'', PyStr (str_of ''Error: '' @ str_of ''query not understood''))] 500"
    using ask_question_catches [of ?E "\<lparr>world = [completion fenced], trace = []\<rparr>" ?Q
        "client_error (str_of ''query not understood'')" ?S1 plain_query ?S2] g2 r2
    by (simp add: client_error_def)
  have c3: "fst (ask_question ?F
      \<lparr>world = [completion fenced, Response (Inr (PyDict []))], trace = []\<rparr> ?Q)
      = JSONResponse [(str_of ''answer'', PyStr (str_of ''Error: '' @ quoted (str_of ''NoneType'')
                  @ str_of '' object is not subscriptable''))] 500"
    using ask_question_catches [of ?F
        "\<lparr>world = [completion fenced, Response (Inr (PyDict []))], trace = []\<rparr>" ?Q
        "not_subscriptable PyNone" ?T1 plain_query ?T2 "[]" ?T3] g3 r3 a3
    by (simp add: not_subscriptable_def)
  have e1: "str_of ''Error: '' @ str_of ''connection refused'' = str_of ''Error: connection refused''"
    by (simp add: str_of_def)
  have e2: "str_of ''Error: '' @ str_of ''query not understood'' = str_of ''Error: query not understood''"
    by (simp add: str_of_def)
  show ?thesis using c1 c2 c3 by (simp only: e1 e2 simp_thms)
qed



text \<open>
  C7. For a response whose first choice's message content is a string \<open>c\<close>,
  \<open>generate_cypher_query\<close> returns \<open>c\<close> with the white space at its two ends stripped
  and the triple backticks removed, the rest unchanged: \<open>c\<close> is white space, then the
  stripped content, then white space; the stripped content neither begins nor ends with
  white space; the stripped content is pieces of text with a triple backtick between
  each two, the result is these pieces one after the other, and no triple backtick is
  left in it.
\<close>

theorem generate_cypher_query_content:
  assumes "requests_post env (world st) (DEEPSEEK_API_URL env) (headers env) (generate_data question)
           = (Inr response, w)"
    and "first_content response = Inr (PyStr c)"
  shows "fst (generate_cypher_query env st question) = Inr (replace fence [] (strip c))
    \<and> (\<exists>pre suf. c = pre @ strip c @ suf \<and> list_all isspace pre \<and> list_all isspace suf)
    \<and> (strip c = [] \<or> \<not> isspace (hd (strip c)) \<and> \<not> isspace (last (strip c)))
    \<and> (\<exists>p ps. strip c = join fence (p # ps) \<and> replace fence [] (strip c) = concat (p # ps))
    \<and> \<not> sublist fence (replace fence [] (strip c))"
  using generate_success [OF assms] no_fence_replace [of "strip c"]
    replace_fence_pieces [of "strip c"] strip_decomp [of c] strip_ends [of c]
  by (simp only: fst_conv) blast

theorem generate_cypher_query_content_witness:
  "fst (generate_cypher_query (scripted (edge_store []) no_dumps)
         \<lparr>world = [completion (32 # fenced @ [32])], trace = []\<rparr> (str_of ''all nodes''))
     = Inr plain_query
   \<and> \<not> sublist fence plain_query"
proof -
  let ?E = "scripted (edge_store []) no_dumps"
  let ?S = "\<lparr>world = [completion (32 # fenced @ [32])], trace = []\<rparr>"
  have h1: "requests_post ?E (world ?S) (DEEPSEEK_API_URL ?E) (headers ?E)
              (generate_data (str_of ''all nodes'')) = (Inr (completion (32 # fenced @ [32])), [])"
    by (simp add: requests_post_scripted)
  have h2: "first_content (completion (32 # fenced @ [32])) = Inr (PyStr (32 # fenced @ [32]))"
    by (rule first_content_completion)
  have e: "replace fence [] fenced = plain_query"
    by (simp add: replace_fenced plain_query_def)
  from generate_cypher_query_content [OF h1 h2] show ?thesis
    by (simp add: strip_padded e)
qed

text \<open>
  The stripping comes first: white space that stands next to a fence stays. For the
  content \<open>```\<close>, newline, \<open>MATCH (n) RETURN n\<close>, newline, \<open>```\<close> the returned query begins
  and ends with a newline.
\<close>

lemma generate_cypher_query_keeps_newlines:
  "fst (generate_cypher_query (scripted (edge_store []) no_dumps)
         \<lparr>world = [completion fenced], trace = []\<rparr> (str_of ''all nodes''))
     = Inr (10 # str_of ''MATCH (n) RETURN n'' @ [10])
   \<and> isspace (hd (10 # str_of ''MATCH (n) RETURN n'' @ [10]))
   \<and> isspace (last (10 # str_of ''MATCH (n) RETURN n'' @ [10]))"
proof -
  let ?E = "scripted (edge_store []) no_dumps"
  let ?S = "\<lparr>world = [completion fenced], trace = []\<rparr>"
  have h1: "requests_post ?E (world ?S) (DEEPSEEK_API_URL ?E) (headers ?E)
              (generate_data (str_of ''all nodes'')) = (Inr (completion fenced), [])"
    by (simp add: requests_post_scripted)
  have h2: "first_content (completion fenced) = Inr (PyStr fenced)"
    by (rule first_content_completion)
  from generate_success [OF h1 h2] show ?thesis
    by (simp add: strip_fenced replace_fenced isspace_def)
qed

subsection \<open>The graph endpoints\<close>





text \<open>
  C5. A request to \<open>/api/search\<close> without \<open>q\<close>, or with an empty \<open>q\<close>, is answered 422 by
  the parameter validation; the handler does not run and the state, with its trace of
  store calls, is unchanged.
\<close>

theorem api_search_rejects:
  assumes "q = None \<or> q = Some []"
  shows "api_search env st q = (Unprocessable, st)
    \<and> http_status (fst (api_search env st q)) = 422"
  using assms by (auto simp: api_search_def)

theorem api_search_rejects_witness:
  "api_search (scripted (edge_store demo_graph) no_dumps) \<lparr>world = [], trace = []\<rparr> None
     = (Unprocessable, \<lparr>world = [], trace = []\<rparr>)
   \<and> api_search (scripted (edge_store demo_graph) no_dumps) \<lparr>world = [], trace = []\<rparr> (Some [])
     = (Unprocessable, \<lparr>world = [], trace = []\<rparr>)"
proof -
  let ?E = "scripted (edge_store demo_graph) no_dumps"
  let ?S = "\<lparr>world = [], trace = []\<rparr> :: response list state"
  have a: "None = None \<or> None = Some ([] :: pystr)" by simp
  have b: "Some ([] :: pystr) = None \<or> Some ([] :: pystr) = Some []" by simp
  from api_search_rejects [OF a, of ?E ?S] api_search_rejects [OF b, of ?E ?S]
  show ?thesis by simp
qed

text \<open>
  C8 (as amended). For every list of rows in which each row has a source and a target
  and both are hashable (as the strings of the spec's data model are), the lines that
  build the projection return \<open>{nodes, links}\<close> and do not raise.
\<close>

theorem node_extraction_hashable:
  assumes "hashable_names rows"
  shows "\<exists>node_names. node_extraction env rows =
     Inr \<lparr>nodes = map (\<lambda>name. [(str_of ''name'', name)]) (set_iter env node_names),
          links = rows\<rparr>"
proof -
  obtain ns where "add_names [] rows = Inr ns"
    using add_names_hashable [OF assms] by blast
  then have "node_extraction env rows =
     Inr \<lparr>nodes = map (\<lambda>name. [(str_of ''name'', name)]) (set_iter env ns), links = rows\<rparr>"
    by (simp add: node_extraction_def)
  then show ?thesis ..
qed

theorem node_extraction_hashable_witness:
  "hashable_names
     [[(str_of ''source'', PyInt 1), (str_of ''target'', PyBool True),
       (str_of ''relation'', PyStr (str_of ''R''))],
      [(str_of ''source'', PyNone), (str_of ''target'', PyStr (str_of ''B'')),
       (str_of ''relation'', PyStr (str_of ''R''))]]
   \<and> (\<exists>node_names.
        node_extraction (scripted (edge_store []) no_dumps)
          [[(str_of ''source'', PyInt 1), (str_of ''target'', PyBool True),
            (str_of ''relation'', PyStr (str_of ''R''))],
           [(str_of ''source'', PyNone), (str_of ''target'', PyStr (str_of ''B'')),
            (str_of ''relation'', PyStr (str_of ''R''))]]
        = Inr \<lparr>nodes = map (\<lambda>name. [(str_of ''name'', name)])
                         (set_iter (scripted (edge_store []) no_dumps) node_names),
               links =
                 [[(str_of ''source'', PyInt 1), (str_of ''target'', PyBool True),
                   (str_of ''relation'', PyStr (str_of ''R''))],
                  [(str_of ''source'', PyNone), (str_of ''target'', PyStr (str_of ''B'')),
                   (str_of ''relation'', PyStr (str_of ''R''))]]\<rparr>)"
proof -
  have h: "hashable_names
     [[(str_of ''source'', PyInt 1), (str_of ''target'', PyBool True),
       (str_of ''relation'', PyStr (str_of ''R''))],
      [(str_of ''source'', PyNone), (str_of ''target'', PyStr (str_of ''B'')),
       (str_of ''relation'', PyStr (str_of ''R''))]]"
    by (simp add: hashable_names_def keys_distinct)
  from node_extraction_hashable [OF h, of "scripted (edge_store []) no_dumps"] h
  show ?thesis by blast
qed

text \<open>
  C8 as stated fails: a row whose source is a list (a node whose \<open>name\<close> property is an
  array) makes \<open>node_names.add\<close> raise \<open>TypeError\<close>, and no projection is returned.
\<close>

theorem node_extraction_unhashable:
  "node_extraction (scripted (edge_store []) no_dumps)
     [[(str_of ''source'', PyList [PyStr (str_of ''Ag''), PyStr (str_of ''silver'')]),
       (str_of ''target'', PyStr (str_of ''B'')),
       (str_of ''relation'', PyStr (str_of ''PROMOTES''))]]
   = Inl (Exn TypeError (str_of ''unhashable type: '' @ quoted (str_of ''list'')))"
  by (simp add: node_extraction_def set_add_def)

text \<open>
  C9. In both endpoints the \<open>links\<close> of the response are the list of rows that
  \<open>run_cypher\<close> returned, as it is (order, duplicates and cell values included), and
  nothing else leaves the process after the query.
\<close>

theorem links_are_rows:
  "(run_cypher env st graph_query (Some [(str_of ''limit'', PyInt limit)]) = (Inr rows, st1)
      \<and> get_full_graph env st limit = (Inr p, st2) \<longrightarrow> links p = rows \<and> st2 = st1)
   \<and> (run_cypher env st search_query (Some [(str_of ''q'', PyStr q)]) = (Inr rows', st1')
      \<and> search_subgraph env st q = (Inr p', st2') \<longrightarrow> links p' = rows' \<and> st2' = st1')"
  by (auto simp: get_full_graph_def search_subgraph_def dest: node_extraction_links)

theorem links_are_rows_witness:
  "(\<exists>p st2. get_full_graph (scripted (edge_store demo_graph) no_dumps)
        \<lparr>world = [], trace = []\<rparr> 300 = (Inr p, st2)
      \<and> links p = map link_row demo_graph)
   \<and> (\<exists>p st2. search_subgraph (scripted (edge_store demo_graph) no_dumps)
        \<lparr>world = [], trace = []\<rparr> (str_of ''cat'') = (Inr p, st2)
      \<and> links p = [link_row (hd demo_graph)])"
proof -
  let ?E = "scripted (edge_store demo_graph) no_dumps"
  let ?S = "\<lparr>world = [], trace = []\<rparr> :: response list state"
  let ?L = "[(str_of ''limit'', PyInt 300)]"
  let ?Q = "[(str_of ''q'', PyStr (str_of ''cat''))]"
  let ?S1 = "\<lparr>world = [], trace = trace ?S @ [Run graph_query ?L]\<rparr> :: response list state"
  let ?S2 = "\<lparr>world = [], trace = trace ?S @ [Run search_query ?Q]\<rparr> :: response list state"
  have rows1: "graph_rows demo_graph 300 = map link_row demo_graph"
    by (simp add: graph_rows_def demo_graph_def)
  have rows2: "search_rows ascii_lower demo_graph (str_of ''cat'') = [link_row (hd demo_graph)]"
    by code_simp
  have s1: "session_run ?E (world ?S) graph_query ?L = (Inr (map link_row demo_graph), [])"
    by (simp add: session_run_scripted edge_store_graph rows1)
  have s2: "session_run ?E (world ?S) search_query ?Q = (Inr (map link_row [hd demo_graph]), [])"
    by (simp add: session_run_scripted edge_store_search rows2)
  have r1: "run_cypher ?E ?S graph_query (Some ?L) = (Inr (map link_row demo_graph), ?S1)"
    using s1 by (simp add: run_cypher_Some)
  have r2: "run_cypher ?E ?S search_query (Some ?Q) = (Inr [link_row (hd demo_graph)], ?S2)"
    using s2 by (simp add: run_cypher_Some)
  obtain p1 where p1: "get_full_graph ?E ?S 300 = (Inr p1, ?S1)"
    using get_full_graph_link_rows [OF s1] by blast
  obtain p2 where p2: "search_subgraph ?E ?S (str_of ''cat'') = (Inr p2, ?S2)"
    using search_subgraph_link_rows [OF s2] by blast
  have "links p1 = map link_row demo_graph"
    using links_are_rows [of ?E ?S 300 "map link_row demo_graph" ?S1 p1 ?S1] r1 p1 by blast
  moreover have "links p2 = [link_row (hd demo_graph)]"
    using links_are_rows [of ?E ?S _ _ _ _ _ "str_of ''cat''" "[link_row (hd demo_graph)]" ?S2 p2 ?S2]
      r2 p2 by blast
  ultimately show ?thesis using p1 p2 by blast
qed

text \<open>
  C10. \<open>get_full_graph\<close> does not look at \<open>limit\<close>: for every integer, negative ones
  included, its one call to the store binds the value as \<open>$limit\<close>, and an exception of
  the store for it is returned by the endpoint as it is, uncaught (a server error of the
  route).
\<close>

theorem get_full_graph_limit_verbatim:
  "trace (snd (get_full_graph env st limit))
     = trace st @ [Run graph_query [(str_of ''limit'', PyInt limit)]]
   \<and> (\<forall>e w. session_run env (world st) graph_query [(str_of ''limit'', PyInt limit)] = (Inl e, w)
        \<longrightarrow> get_full_graph env st limit =
              (Inl e, \<lparr>world = w,
                       trace = trace st @ [Run graph_query [(str_of ''limit'', PyInt limit)]]\<rparr>)
          \<and> fst (api_graph env st (Some limit)) = ServerError e)"
  by (auto simp: get_full_graph_def api_graph_def served_def run_cypher_Some split: sum.splits prod.splits)

theorem get_full_graph_limit_verbatim_witness:
  "get_full_graph (scripted (edge_store demo_graph) no_dumps) \<lparr>world = [], trace = []\<rparr> (- 1)
     = (Inl (client_error (str_of ''LIMIT: must be a non-negative integer'')),
        \<lparr>world = [], trace = [Run graph_query [(str_of ''limit'', PyInt (- 1))]]\<rparr>)
   \<and> fst (api_graph (scripted (edge_store demo_graph) no_dumps) \<lparr>world = [], trace = []\<rparr>
          (Some (- 1)))
     = ServerError (client_error (str_of ''LIMIT: must be a non-negative integer''))"
proof -
  let ?E = "scripted (edge_store demo_graph) no_dumps"
  let ?S = "\<lparr>world = [], trace = []\<rparr> :: response list state"
  have h: "session_run ?E (world ?S) graph_query [(str_of ''limit'', PyInt (- 1))]
      = (Inl (client_error (str_of ''LIMIT: must be a non-negative integer'')), [])"
    by (simp add: session_run_scripted edge_store_graph_negative)
  from get_full_graph_limit_verbatim [of ?E ?S "- 1"] h show ?thesis by simp
qed

end
